theory Spec2Isabelle
  imports Complex_Main "HOL-Library.Multiset" "HOL-Library.Log_Nat"
begin

section \<open>The store: tables of database-schema.sql\<close>

text \<open>
  The screens of the application read and write five tables of a hosted relational
  store. A table is the list of its rows. A UUID is read as a natural number (it is a
  128-bit number), a timestamp as the number of milliseconds since the epoch (what
  \<^verbatim>\<open>new Date(...).getTime()\<close> returns). Nullable columns are options. Only the columns
  that the modelled screens read or write are kept.
\<close>

type_synonym uuid = nat
type_synonym timestamp = int

datatype role = Volunteer | Admin

datatype status = Joined | Attended | Cancelled

datatype notification_type = Event | General | Alert

record users_row =
  u_id :: uuid
  u_email :: string
  u_name :: "string option"
  u_role :: role

record events_row =
  e_id :: uuid
  e_title :: string
  e_description :: string
  e_date :: timestamp
  e_location :: string
  e_created_by :: uuid

record event_participants_row =
  p_id :: uuid
  p_event_id :: uuid
  p_volunteer_id :: uuid
  p_status :: status
  p_hours :: "int option"
  p_created_at :: timestamp

record notifications_row =
  n_id :: uuid
  n_user_id :: uuid
  n_message :: string
  n_type :: "notification_type option"
  n_read_status :: "bool option"
  n_created_at :: timestamp

record database =
  users :: "users_row list"
  events :: "events_row list"
  event_participants :: "event_participants_row list"
  notifications :: "notifications_row list"

text \<open>
  What the store reports when it rejects a statement: a violated primary key, the
  violated \<^verbatim>\<open>UNIQUE(event_id, volunteer_id)\<close> (the spec's \<^verbatim>\<open>AlreadyJoined\<close>: "uniqueness
  violation on join"), a violated foreign key, a violated \<^verbatim>\<open>WITH CHECK\<close> of a row-level
  policy (the spec's \<^verbatim>\<open>Forbidden\<close>), and error 42P17, "infinite recursion detected in
  policy for relation".
\<close>

datatype store_error =
  PrimaryKeyViolation
  | AlreadyJoined
  | ForeignKeyViolation
  | Forbidden
  | InfiniteRecursion

subsection \<open>Row-level policies\<close>

text \<open>
  Row-level security is enabled on the five tables (lines 66 to 70), and the screens
  connect with the public key, so every statement of theirs runs under the policies of
  lines 75 to 128. A policy belongs to a table and a command (\<^verbatim>\<open>FOR ALL\<close> covers the four
  commands); seven of them hold the sub-query
  \<^verbatim>\<open>EXISTS (SELECT 1 FROM public.users WHERE id = auth.uid() AND role = 'admin')\<close>, the
  others compare \<^verbatim>\<open>auth.uid()\<close> with a column or are \<^verbatim>\<open>true\<close>. The list below is the schema's,
  in its order, each policy with the table its sub-query selects from.
\<close>

datatype relation = Users | Volunteers | Events | EventParticipants | Notifications

datatype command = Select | Insert | Update | Delete | All

record policy =
  pol_relation :: relation
  pol_command :: command
  pol_subquery :: "relation option"

definition policies :: "policy list" where
  "policies =
    [\<lparr>pol_relation = Users, pol_command = Select, pol_subquery = None\<rparr>,
     \<lparr>pol_relation = Users, pol_command = Update, pol_subquery = None\<rparr>,
     \<lparr>pol_relation = Users, pol_command = Select, pol_subquery = Some Users\<rparr>,
     \<lparr>pol_relation = Volunteers, pol_command = Select, pol_subquery = None\<rparr>,
     \<lparr>pol_relation = Volunteers, pol_command = Insert, pol_subquery = None\<rparr>,
     \<lparr>pol_relation = Volunteers, pol_command = Update, pol_subquery = None\<rparr>,
     \<lparr>pol_relation = Volunteers, pol_command = Select, pol_subquery = Some Users\<rparr>,
     \<lparr>pol_relation = Events, pol_command = Select, pol_subquery = None\<rparr>,
     \<lparr>pol_relation = Events, pol_command = Insert, pol_subquery = Some Users\<rparr>,
     \<lparr>pol_relation = Events, pol_command = Update, pol_subquery = Some Users\<rparr>,
     \<lparr>pol_relation = Events, pol_command = Delete, pol_subquery = Some Users\<rparr>,
     \<lparr>pol_relation = EventParticipants, pol_command = Select, pol_subquery = None\<rparr>,
     \<lparr>pol_relation = EventParticipants, pol_command = Insert, pol_subquery = None\<rparr>,
     \<lparr>pol_relation = EventParticipants, pol_command = Delete, pol_subquery = None\<rparr>,
     \<lparr>pol_relation = EventParticipants, pol_command = All, pol_subquery = Some Users\<rparr>,
     \<lparr>pol_relation = Notifications, pol_command = Select, pol_subquery = None\<rparr>,
     \<lparr>pol_relation = Notifications, pol_command = Update, pol_subquery = None\<rparr>,
     \<lparr>pol_relation = Notifications, pol_command = Insert, pol_subquery = Some Users\<rparr>]"

text \<open>
  The policies that a statement of command \<open>c\<close> on table \<open>r\<close> is rewritten with: those
  for \<open>c\<close>, those \<^verbatim>\<open>FOR ALL\<close>, and for an update or a deletion, which read the rows they
  change, those for \<^verbatim>\<open>SELECT\<close>.
\<close>

definition applicable :: "relation \<Rightarrow> command \<Rightarrow> policy list" where
  "applicable r c =
     filter (\<lambda>p. pol_relation p = r
                \<and> (pol_command p = c \<or> pol_command p = All
                    \<or> (pol_command p = Select \<and> (c = Update \<or> c = Delete))))
       policies"

text \<open>
  Before a statement runs, the store expands the policies of each table it reads, and
  then the policies of the tables that their sub-queries read, which are \<^verbatim>\<open>SELECT\<close>s. It
  keeps the tables whose policies it is in the middle of expanding; meeting one of them
  again ends the statement with error 42P17. Here \<open>inactive\<close> holds the tables that are
  not in the middle of being expanded.
\<close>

fun expansion_recurs :: "relation list \<Rightarrow> relation \<Rightarrow> command \<Rightarrow> bool" where
  "expansion_recurs inactive r c =
     (if r \<in> set inactive
      then list_ex (\<lambda>p. case pol_subquery p of
                          None \<Rightarrow> False
                        | Some r' \<Rightarrow> expansion_recurs (removeAll r inactive) r' Select)
             (applicable r c)
      else True)"

definition policy_error :: "relation \<Rightarrow> command \<Rightarrow> store_error option" where
  "policy_error r c =
     (if expansion_recurs [Users, Volunteers, Events, EventParticipants, Notifications] r c
      then Some InfiniteRecursion else None)"

text \<open>
  The admin test of the seven policies. It is a \<^verbatim>\<open>SELECT\<close> on \<^verbatim>\<open>users\<close>, so it runs under the
  policies of \<^verbatim>\<open>users\<close>; \<^verbatim>\<open>auth.uid()\<close> is the id of the signed-in account, or null.
\<close>

definition is_admin :: "database \<Rightarrow> uuid option \<Rightarrow> store_error + bool" where
  "is_admin db uid =
     (case policy_error Users Select of
        Some err \<Rightarrow> Inl err
      | None \<Rightarrow>
          Inr (case uid of
                 None \<Rightarrow> False
               | Some a \<Rightarrow> list_ex (\<lambda>u. u_id u = a \<and> u_role u = Admin) (users db)))"




text \<open>"Users can view their own notifications".\<close>

definition notifications_select :: "database \<Rightarrow> uuid option \<Rightarrow> notifications_row list" where
  "notifications_select db uid = filter (\<lambda>n. uid = Some (n_user_id n)) (notifications db)"

text \<open>
  The constraints of the table \<^verbatim>\<open>event_participants\<close> (lines 44 to 53) on a new row: the
  primary key, then \<^verbatim>\<open>UNIQUE(event_id, volunteer_id)\<close>, which looks at the pair only,
  whatever the status of the row already there, then the two foreign keys. An accepted
  row is appended.
\<close>

definition event_participants_constraints ::
  "database \<Rightarrow> event_participants_row \<Rightarrow> store_error + database" where
  "event_participants_constraints db row =
     (if list_ex (\<lambda>p. p_id p = p_id row) (event_participants db)
        then Inl PrimaryKeyViolation
      else if list_ex (\<lambda>p. p_event_id p = p_event_id row \<and> p_volunteer_id p = p_volunteer_id row)
                (event_participants db)
        then Inl AlreadyJoined
      else if \<not> (list_ex (\<lambda>e. e_id e = p_event_id row) (events db)
                \<and> list_ex (\<lambda>u. u_id u = p_volunteer_id row) (users db))
        then Inl ForeignKeyViolation
      else Inr (db\<lparr>event_participants := event_participants db @ [row]\<rparr>))"

text \<open>
  Insertion into \<^verbatim>\<open>event_participants\<close>: the policies "Users can join events"
  (\<^verbatim>\<open>auth.uid() = volunteer_id\<close>) and "Admins can manage all participations" come before
  the constraints of the table.
\<close>

definition event_participants_insert ::
  "database \<Rightarrow> uuid option \<Rightarrow> event_participants_row \<Rightarrow> store_error + database" where
  "event_participants_insert db uid row =
     (case is_admin db uid of
        Inl err \<Rightarrow> Inl err
      | Inr admin \<Rightarrow>
          if uid = Some (p_volunteer_id row) \<or> admin
          then event_participants_constraints db row
          else Inl Forbidden)"

text \<open>
  Deletion from \<^verbatim>\<open>event_participants\<close> of the rows that satisfy \<open>cond\<close>, under the
  policies "Users can leave events they joined" and "Admins can manage all
  participations": a row that neither admits is left in place.
\<close>

definition event_participants_delete ::
  "database \<Rightarrow> uuid option \<Rightarrow> (event_participants_row \<Rightarrow> bool) \<Rightarrow> store_error + database" where
  "event_participants_delete db uid cond =
     (case is_admin db uid of
        Inl err \<Rightarrow> Inl err
      | Inr admin \<Rightarrow>
          Inr (db\<lparr>event_participants :=
                    filter (\<lambda>p. \<not> (cond p \<and> (uid = Some (p_volunteer_id p) \<or> admin)))
                      (event_participants db)\<rparr>))"

text \<open>
  \<^verbatim>\<open>UPDATE notifications SET read_status = true\<close> on the rows that satisfy \<open>cond\<close>. The
  only update policy is "Users can update their own notifications"
  (\<^verbatim>\<open>USING (auth.uid() = user_id)\<close>): a row of another account is not available to the
  statement, which skips it silently.
\<close>

definition notifications_update_read ::
  "database \<Rightarrow> uuid option \<Rightarrow> (notifications_row \<Rightarrow> bool) \<Rightarrow> database" where
  "notifications_update_read db uid cond =
     db\<lparr>notifications :=
          map (\<lambda>n. if cond n \<and> uid = Some (n_user_id n)
                   then n\<lparr>n_read_status := Some True\<rparr> else n)
            (notifications db)\<rparr>"

subsection \<open>JavaScript's \<^verbatim>\<open>||\<close> on the values the screens use it on\<close>





section \<open>EventsScreen: the events list, join and leave\<close>








text \<open>
  \<^verbatim>\<open>handleJoinEvent\<close> inserts \<^verbatim>\<open>{event_id, volunteer_id: user.id, status: 'joined'}\<close>;
  the store fills in the id (\<^verbatim>\<open>gen_random_uuid()\<close>, here \<open>new_id\<close>), \<^verbatim>\<open>hours\<close> (default 0)
  and \<^verbatim>\<open>created_at\<close> (the current time, here \<open>now\<close>). The result is \<open>None\<close> when nobody
  is signed in (the handler returns at once), \<open>Some (Inl err)\<close> when the store rejects the
  statement (the error is logged and the toast "Failed to join event" is shown), and
  \<open>Some (Inr db')\<close> with the new store otherwise (toast "Successfully joined the event!").
\<close>

definition handleJoinEvent ::
  "database \<Rightarrow> uuid option \<Rightarrow> uuid \<Rightarrow> uuid \<Rightarrow> timestamp \<Rightarrow> (store_error + database) option" where
  "handleJoinEvent db user eventId new_id now =
     (case user of
        None \<Rightarrow> None
      | Some user_id \<Rightarrow>
          Some (event_participants_insert db user
                  \<lparr>p_id = new_id, p_event_id = eventId, p_volunteer_id = user_id,
                   p_status = Joined, p_hours = Some 0, p_created_at = now\<rparr>))"

text \<open>
  \<^verbatim>\<open>handleLeaveEvent\<close> deletes the rows with this event and this volunteer. When the
  store rejects the statement, the error is logged and the toast "Failed to leave event"
  is shown.
\<close>

definition handleLeaveEvent ::
  "database \<Rightarrow> uuid option \<Rightarrow> uuid \<Rightarrow> (store_error + database) option" where
  "handleLeaveEvent db user eventId =
     (case user of
        None \<Rightarrow> None
      | Some user_id \<Rightarrow>
          Some (event_participants_delete db user
                  (\<lambda>p. p_event_id p = eventId \<and> p_volunteer_id p = user_id)))"

text \<open>The store after a handler has run: the one it returns, or the old one.\<close>

definition store_after :: "database \<Rightarrow> (store_error + database) option \<Rightarrow> database" where
  "store_after db outcome =
     (case outcome of None \<Rightarrow> db | Some (Inl err) \<Rightarrow> db | Some (Inr db') \<Rightarrow> db')"

text \<open>Leaving and then joining at once: the join runs on the store that the leave leaves.\<close>

definition leave_then_join ::
  "database \<Rightarrow> uuid option \<Rightarrow> uuid \<Rightarrow> uuid \<Rightarrow> timestamp \<Rightarrow> database" where
  "leave_then_join db user eventId new_id now =
     store_after (store_after db (handleLeaveEvent db user eventId))
       (handleJoinEvent (store_after db (handleLeaveEvent db user eventId)) user eventId new_id now)"

section \<open>AdminScreen: statistics and reports\<close>


















subsection \<open>The attendance figures of the events table\<close>


text \<open>\<open>2\<close> to the power \<open>e\<close>, for an integer \<open>e\<close>.\<close>

definition pow2 :: "int \<Rightarrow> rat" where
  "pow2 e = (if 0 \<le> e then 2 ^ nat e else 1 / 2 ^ nat (- e))"












section \<open>NotificationContext\<close>

text \<open>
  \<^verbatim>\<open>fetchNotifications\<close> replaces the list held by the provider by the caller's
  notifications, newest first, cut after fifty. Without a signed-in user the list stays.
\<close>

definition fetchNotifications ::
  "database \<Rightarrow> uuid option \<Rightarrow> notifications_row list \<Rightarrow> notifications_row list" where
  "fetchNotifications db user prev =
     (case user of
        None \<Rightarrow> prev
      | Some user_id \<Rightarrow>
          take 50 (sort_key (\<lambda>n. - n_created_at n)
                     (filter (\<lambda>n. n_user_id n = user_id) (notifications_select db user))))"

text \<open>
  The handler of \<^verbatim>\<open>subscribeToNotifications\<close> for a row that the store has inserted for
  the user (lines 74 to 76): the new notification is put in front of the list.
\<close>

definition subscribeToNotifications ::
  "notifications_row \<Rightarrow> notifications_row list \<Rightarrow> notifications_row list" where
  "subscribeToNotifications newNotification prev = newNotification # prev"

text \<open>\<^verbatim>\<open>notifications.filter(n => !n.read_status).length\<close>: a null flag counts as unread.\<close>

definition unreadCount :: "notifications_row list \<Rightarrow> nat" where
  "unreadCount ns = length (filter (\<lambda>n. n_read_status n \<noteq> Some True) ns)"

text \<open>
  \<^verbatim>\<open>markAsRead\<close>: the update addresses the row by its id alone; the handler does not
  look at who is signed in. The statement reports no error, so the list of the provider
  is mapped as well. The result is the error (always none), the store and the list.
\<close>

definition markAsRead ::
  "database \<Rightarrow> uuid option \<Rightarrow> notifications_row list \<Rightarrow> uuid
     \<Rightarrow> store_error option \<times> database \<times> notifications_row list" where
  "markAsRead db user prev notificationId =
     (None,
      notifications_update_read db user (\<lambda>n. n_id n = notificationId),
      map (\<lambda>n. if n_id n = notificationId then n\<lparr>n_read_status := Some True\<rparr> else n) prev)"

section \<open>Properties\<close>

subsection \<open>Auxiliary facts\<close>


lemma take_sort_key_split:
  fixes f :: "'a \<Rightarrow> 'k::linorder"
  shows "\<exists>rest. mset (take k (sort_key f xs)) + mset rest = mset xs
           \<and> (\<forall>x\<in>set (take k (sort_key f xs)). \<forall>y\<in>set rest. f x \<le> f y)
           \<and> length rest = length xs - k"
proof -
  let ?s = "sort_key f xs"
  have srt: "sorted (map f ?s)" by simp
  have "sorted (map f (take k ?s) @ map f (drop k ?s))"
    using srt by (simp flip: map_append)
  then have ord: "\<forall>x\<in>set (take k ?s). \<forall>y\<in>set (drop k ?s). f x \<le> f y"
    by (auto simp: sorted_append)
  have "mset (take k ?s) + mset (drop k ?s) = mset ?s"
    by (simp flip: mset_append)
  then have "mset (take k ?s) + mset (drop k ?s) = mset xs" by simp
  moreover have "length (drop k ?s) = length xs - k" by simp
  ultimately show ?thesis using ord by blast
qed


lemma map_if_unchanged:
  "\<not> list_ex P xs \<Longrightarrow> map (\<lambda>x. if P x then g x else x) xs = xs"
  by (induction xs) auto

lemma map_if_post:
  assumes "\<And>x. P (g x) = P x" and "\<And>x. P x \<Longrightarrow> Q (g x)"
  shows "\<forall>y\<in>set (map (\<lambda>x. if P x then g x else x) xs). P y \<longrightarrow> Q y"
  using assms by (induction xs) auto

lemma filter_map_if_others:
  assumes "\<And>x. P (g x) = P x"
  shows "filter (\<lambda>x. \<not> P x) (map (\<lambda>x. if P x then g x else x) xs) = filter (\<lambda>x. \<not> P x) xs"
  using assms by (induction xs) auto

lemma map_proj_map_if:
  assumes "\<And>x. h (g x) = h x"
  shows "map h (map (\<lambda>x. if P x then g x else x) xs) = map h xs"
  using assms by (induction xs) auto

lemma map_if_idem:
  assumes "\<And>x. P (g x) = P x" and "\<And>x. g (g x) = g x"
  shows "map (\<lambda>x. if P x then g x else x) (map (\<lambda>x. if P x then g x else x) xs)
           = map (\<lambda>x. if P x then g x else x) xs"
  using assms by (induction xs) auto




lemma count_after_append:
  "length (filter (\<lambda>p. p_event_id p = k) (ps @ [row]))
     = (if k = p_event_id row then length (filter (\<lambda>p. p_event_id p = k) ps) + 1
        else length (filter (\<lambda>p. p_event_id p = k) ps))"
  by auto


lemma policy_error_users: "policy_error Users Select = Some InfiniteRecursion"
  by code_simp

lemma is_admin_rejected: "is_admin db uid = Inl InfiniteRecursion"
  by (simp add: is_admin_def policy_error_users)






lemma handleJoinEvent_rejected:
  "handleJoinEvent db (Some v) eventId new_id now = Some (Inl InfiniteRecursion)"
  by (simp add: handleJoinEvent_def event_participants_insert_def is_admin_rejected)

lemma handleLeaveEvent_rejected:
  "handleLeaveEvent db (Some v) eventId = Some (Inl InfiniteRecursion)"
  by (simp add: handleLeaveEvent_def event_participants_delete_def is_admin_rejected)

lemma pow2_powi: "pow2 e = 2 powi e"
  by (simp add: pow2_def power_int_def power_one_over inverse_eq_divide)



lemma pow2_less: "a < b \<Longrightarrow> pow2 a < pow2 b"
  by (simp add: pow2_powi power_int_strict_increasing)











subsection \<open>Participant counts\<close>




subsection \<open>Coverage of the event report\<close>




subsection \<open>Joining and leaving\<close>




subsection \<open>Leaving and joining again\<close>

text \<open>
  Claim C8, at a store where volunteer 7 has attended event 1 for four hours. The store
  rejects the deletion of \<^verbatim>\<open>handleLeaveEvent\<close> and the insertion of \<^verbatim>\<open>handleJoinEvent\<close>:
  the policy "Admins can manage all participations" applies to both and opens the
  sub-query on \<^verbatim>\<open>users\<close>, whose policy "Admins can view all users" opens it again. So
  leaving and joining at once leaves the store as it was, with the row, and a single join
  on the store without the row leaves that store, without it.
\<close>

theorem leave_then_join_rejected:
  "handleLeaveEvent
      \<lparr>users = [\<lparr>u_id = 5, u_email = ''admin@srcs.org'', u_name = Some ''Admin'', u_role = Admin\<rparr>,
               \<lparr>u_id = 7, u_email = ''amal@srcs.org'', u_name = Some ''Amal'', u_role = Volunteer\<rparr>],
      events = [\<lparr>e_id = 1, e_title = ''Blood drive'', e_description = ''Donors'',
          e_date = 100, e_location = ''Khartoum'', e_created_by = 5\<rparr>],
      event_participants = [\<lparr>p_id = 1, p_event_id = 1, p_volunteer_id = 7, p_status = Attended,
          p_hours = Some 4, p_created_at = 10\<rparr>],
      notifications = []\<rparr> (Some 7) 1
     = Some (Inl InfiniteRecursion)
   \<and> leave_then_join
      \<lparr>users = [\<lparr>u_id = 5, u_email = ''admin@srcs.org'', u_name = Some ''Admin'', u_role = Admin\<rparr>,
               \<lparr>u_id = 7, u_email = ''amal@srcs.org'', u_name = Some ''Amal'', u_role = Volunteer\<rparr>],
      events = [\<lparr>e_id = 1, e_title = ''Blood drive'', e_description = ''Donors'',
          e_date = 100, e_location = ''Khartoum'', e_created_by = 5\<rparr>],
      event_participants = [\<lparr>p_id = 1, p_event_id = 1, p_volunteer_id = 7, p_status = Attended,
          p_hours = Some 4, p_created_at = 10\<rparr>],
      notifications = []\<rparr> (Some 7) 1 9 50
     = \<lparr>users = [\<lparr>u_id = 5, u_email = ''admin@srcs.org'', u_name = Some ''Admin'', u_role = Admin\<rparr>,
               \<lparr>u_id = 7, u_email = ''amal@srcs.org'', u_name = Some ''Amal'', u_role = Volunteer\<rparr>],
      events = [\<lparr>e_id = 1, e_title = ''Blood drive'', e_description = ''Donors'',
          e_date = 100, e_location = ''Khartoum'', e_created_by = 5\<rparr>],
      event_participants = [\<lparr>p_id = 1, p_event_id = 1, p_volunteer_id = 7, p_status = Attended,
          p_hours = Some 4, p_created_at = 10\<rparr>],
      notifications = []\<rparr>
   \<and> handleJoinEvent
      \<lparr>users = [\<lparr>u_id = 5, u_email = ''admin@srcs.org'', u_name = Some ''Admin'', u_role = Admin\<rparr>,
               \<lparr>u_id = 7, u_email = ''amal@srcs.org'', u_name = Some ''Amal'', u_role = Volunteer\<rparr>],
      events = [\<lparr>e_id = 1, e_title = ''Blood drive'', e_description = ''Donors'',
          e_date = 100, e_location = ''Khartoum'', e_created_by = 5\<rparr>],
      event_participants = [],
      notifications = []\<rparr> (Some 7) 1 9 50
     = Some (Inl InfiniteRecursion)
   \<and> store_after
      \<lparr>users = [\<lparr>u_id = 5, u_email = ''admin@srcs.org'', u_name = Some ''Admin'', u_role = Admin\<rparr>,
               \<lparr>u_id = 7, u_email = ''amal@srcs.org'', u_name = Some ''Amal'', u_role = Volunteer\<rparr>],
      events = [\<lparr>e_id = 1, e_title = ''Blood drive'', e_description = ''Donors'',
          e_date = 100, e_location = ''Khartoum'', e_created_by = 5\<rparr>],
      event_participants = [],
      notifications = []\<rparr>
      (handleJoinEvent
      \<lparr>users = [\<lparr>u_id = 5, u_email = ''admin@srcs.org'', u_name = Some ''Admin'', u_role = Admin\<rparr>,
               \<lparr>u_id = 7, u_email = ''amal@srcs.org'', u_name = Some ''Amal'', u_role = Volunteer\<rparr>],
      events = [\<lparr>e_id = 1, e_title = ''Blood drive'', e_description = ''Donors'',
          e_date = 100, e_location = ''Khartoum'', e_created_by = 5\<rparr>],
      event_participants = [],
      notifications = []\<rparr> (Some 7) 1 9 50)
     = \<lparr>users = [\<lparr>u_id = 5, u_email = ''admin@srcs.org'', u_name = Some ''Admin'', u_role = Admin\<rparr>,
               \<lparr>u_id = 7, u_email = ''amal@srcs.org'', u_name = Some ''Amal'', u_role = Volunteer\<rparr>],
      events = [\<lparr>e_id = 1, e_title = ''Blood drive'', e_description = ''Donors'',
          e_date = 100, e_location = ''Khartoum'', e_created_by = 5\<rparr>],
      event_participants = [],
      notifications = []\<rparr>
   \<and> event_participants (leave_then_join
      \<lparr>users = [\<lparr>u_id = 5, u_email = ''admin@srcs.org'', u_name = Some ''Admin'', u_role = Admin\<rparr>,
               \<lparr>u_id = 7, u_email = ''amal@srcs.org'', u_name = Some ''Amal'', u_role = Volunteer\<rparr>],
      events = [\<lparr>e_id = 1, e_title = ''Blood drive'', e_description = ''Donors'',
          e_date = 100, e_location = ''Khartoum'', e_created_by = 5\<rparr>],
      event_participants = [\<lparr>p_id = 1, p_event_id = 1, p_volunteer_id = 7, p_status = Attended,
          p_hours = Some 4, p_created_at = 10\<rparr>],
      notifications = []\<rparr> (Some 7) 1 9 50)
     \<noteq> event_participants (store_after
      \<lparr>users = [\<lparr>u_id = 5, u_email = ''admin@srcs.org'', u_name = Some ''Admin'', u_role = Admin\<rparr>,
               \<lparr>u_id = 7, u_email = ''amal@srcs.org'', u_name = Some ''Amal'', u_role = Volunteer\<rparr>],
      events = [\<lparr>e_id = 1, e_title = ''Blood drive'', e_description = ''Donors'',
          e_date = 100, e_location = ''Khartoum'', e_created_by = 5\<rparr>],
      event_participants = [],
      notifications = []\<rparr>
      (handleJoinEvent
      \<lparr>users = [\<lparr>u_id = 5, u_email = ''admin@srcs.org'', u_name = Some ''Admin'', u_role = Admin\<rparr>,
               \<lparr>u_id = 7, u_email = ''amal@srcs.org'', u_name = Some ''Amal'', u_role = Volunteer\<rparr>],
      events = [\<lparr>e_id = 1, e_title = ''Blood drive'', e_description = ''Donors'',
          e_date = 100, e_location = ''Khartoum'', e_created_by = 5\<rparr>],
      event_participants = [],
      notifications = []\<rparr> (Some 7) 1 9 50))"
  by (simp add: leave_then_join_def store_after_def handleLeaveEvent_rejected
        handleJoinEvent_rejected)

subsection \<open>The joined-events view\<close>




subsection \<open>The volunteer report\<close>




subsection \<open>Statistics\<close>




subsection \<open>The attendance rate\<close>



subsection \<open>Marking a notification as read\<close>

text \<open>
  Claim C7, as the code has it. \<^verbatim>\<open>markAsRead\<close> reports no error, whoever calls it. When the
  caller is not the recipient of a notification with this id, the store is left as it is.
  After the call every notification with this id whose recipient is the caller is read,
  every other notification is as before, and only the read flag has changed;
  in the list of the provider every entry with this id is read. A repeated call changes
  neither the store nor the list.
\<close>

theorem markAsRead_silent_policy:
  "fst (markAsRead db user prev nid) = None
   \<and> (\<not> list_ex (\<lambda>n. n_id n = nid \<and> user = Some (n_user_id n)) (notifications db) \<longrightarrow>
        fst (snd (markAsRead db user prev nid)) = db)
   \<and> (\<forall>n\<in>set (notifications (fst (snd (markAsRead db user prev nid)))).
        n_id n = nid \<and> user = Some (n_user_id n) \<longrightarrow> n_read_status n = Some True)
   \<and> filter (\<lambda>n. \<not> (n_id n = nid \<and> user = Some (n_user_id n)))
        (notifications (fst (snd (markAsRead db user prev nid))))
      = filter (\<lambda>n. \<not> (n_id n = nid \<and> user = Some (n_user_id n))) (notifications db)
   \<and> map (\<lambda>n. (n_id n, n_user_id n, n_message n, n_type n, n_created_at n))
        (notifications (fst (snd (markAsRead db user prev nid))))
      = map (\<lambda>n. (n_id n, n_user_id n, n_message n, n_type n, n_created_at n)) (notifications db)
   \<and> (\<forall>n\<in>set (snd (snd (markAsRead db user prev nid))).
        n_id n = nid \<longrightarrow> n_read_status n = Some True)
   \<and> markAsRead (fst (snd (markAsRead db user prev nid))) user
        (snd (snd (markAsRead db user prev nid))) nid
      = markAsRead db user prev nid"
proof -
  let ?mine = "\<lambda>n. n_id n = nid \<and> user = Some (n_user_id n)"
  let ?addressed = "\<lambda>n. n_id n = nid"
  let ?read = "\<lambda>n. n\<lparr>n_read_status := Some True\<rparr>"
  let ?upd = "\<lambda>n. if ?mine n then ?read n else n"
  let ?loc = "\<lambda>n. if ?addressed n then ?read n else n"
  let ?db' = "db\<lparr>notifications := map ?upd (notifications db)\<rparr>"
  have res: "markAsRead db user prev nid = (None, ?db', map ?loc prev)"
    by (simp add: markAsRead_def notifications_update_read_def)
  have nd: "notifications ?db' = map ?upd (notifications db)" by simp
  have keep: "?mine (?read n) = ?mine n" for n :: notifications_row by simp
  have keep': "?addressed (?read n) = ?addressed n" for n :: notifications_row by simp
  have rr: "?read (?read n) = ?read n" for n :: notifications_row by simp
  have b: "\<not> list_ex ?mine (notifications db) \<longrightarrow> ?db' = db"
  proof
    assume "\<not> list_ex ?mine (notifications db)"
    then have "map ?upd (notifications db) = notifications db"
      by (rule map_if_unchanged)
    then show "?db' = db" by simp
  qed
  have c: "\<forall>n\<in>set (map ?upd (notifications db)). ?mine n \<longrightarrow> n_read_status n = Some True"
    by (rule map_if_post [where P = ?mine and g = ?read]) simp_all
  have d: "filter (\<lambda>n. \<not> ?mine n) (map ?upd (notifications db))
             = filter (\<lambda>n. \<not> ?mine n) (notifications db)"
    by (rule filter_map_if_others [where P = ?mine and g = ?read]) simp
  have e: "map (\<lambda>n. (n_id n, n_user_id n, n_message n, n_type n, n_created_at n))
             (map ?upd (notifications db))
      = map (\<lambda>n. (n_id n, n_user_id n, n_message n, n_type n, n_created_at n)) (notifications db)"
    by (rule map_proj_map_if [where g = ?read]) simp
  have f: "\<forall>n\<in>set (map ?loc prev). ?addressed n \<longrightarrow> n_read_status n = Some True"
    by (rule map_if_post [where P = ?addressed and g = ?read]) simp_all
  have g1: "map ?upd (map ?upd (notifications db)) = map ?upd (notifications db)"
    by (rule map_if_idem [where P = ?mine and g = ?read]) simp_all
  have g2: "map ?loc (map ?loc prev) = map ?loc prev"
    by (rule map_if_idem [where P = ?addressed and g = ?read]) simp_all
  have "markAsRead ?db' user (map ?loc prev) nid
      = (None, ?db'\<lparr>notifications := map ?upd (notifications ?db')\<rparr>, map ?loc (map ?loc prev))"
    by (simp only: markAsRead_def notifications_update_read_def)
  also have "\<dots> = (None, ?db', map ?loc prev)"
    by (simp only: g2 nd g1) simp
  finally have g: "markAsRead ?db' user (map ?loc prev) nid = (None, ?db', map ?loc prev)" .
  show ?thesis
    unfolding res fst_conv snd_conv nd
    by (intro conjI refl b c d e f g)
qed

theorem markAsRead_silent_policy_witness:
  "map n_read_status (notifications (fst (snd (markAsRead
     \<lparr>users = [], events = [], event_participants = [],
      notifications = [\<lparr>n_id = 1, n_user_id = 7, n_message = ''Shift moved'',
         n_type = Some Alert, n_read_status = Some False, n_created_at = 10\<rparr>,
        \<lparr>n_id = 2, n_user_id = 8, n_message = ''Welcome'',
         n_type = None, n_read_status = None, n_created_at = 11\<rparr>]\<rparr>
     (Some 7) [\<lparr>n_id = 1, n_user_id = 7, n_message = ''Shift moved'',
         n_type = Some Alert, n_read_status = Some False, n_created_at = 10\<rparr>] 1)))) = [Some True, None]
   \<and> fst (snd (markAsRead
     \<lparr>users = [], events = [], event_participants = [],
      notifications = [\<lparr>n_id = 1, n_user_id = 7, n_message = ''Shift moved'',
         n_type = Some Alert, n_read_status = Some False, n_created_at = 10\<rparr>,
        \<lparr>n_id = 2, n_user_id = 8, n_message = ''Welcome'',
         n_type = None, n_read_status = None, n_created_at = 11\<rparr>]\<rparr>
     (Some 8) [] 1))
   = \<lparr>users = [], events = [], event_participants = [],
      notifications = [\<lparr>n_id = 1, n_user_id = 7, n_message = ''Shift moved'',
         n_type = Some Alert, n_read_status = Some False, n_created_at = 10\<rparr>,
        \<lparr>n_id = 2, n_user_id = 8, n_message = ''Welcome'',
         n_type = None, n_read_status = None, n_created_at = 11\<rparr>]\<rparr>"
proof -
  let ?db = "\<lparr>users = [], events = [], event_participants = [],
      notifications = [\<lparr>n_id = 1, n_user_id = 7, n_message = ''Shift moved'',
         n_type = Some Alert, n_read_status = Some False, n_created_at = 10\<rparr>,
        \<lparr>n_id = 2, n_user_id = 8, n_message = ''Welcome'',
         n_type = None, n_read_status = None, n_created_at = 11\<rparr>]\<rparr>"
  let ?n1 = "\<lparr>n_id = 1, n_user_id = 7, n_message = ''Shift moved'',
         n_type = Some Alert, n_read_status = Some False, n_created_at = 10\<rparr>"
  note own = markAsRead_silent_policy [of ?db "Some 7" "[?n1]" 1]
  note other = markAsRead_silent_policy [of ?db "Some 8" "[]" 1]
  have "\<not> list_ex (\<lambda>n. n_id n = 1 \<and> Some 8 = Some (n_user_id n)) (notifications ?db)"
    by simp
  with other have unchanged: "fst (snd (markAsRead ?db (Some 8) [] 1)) = ?db"
    by blast
  have flags: "map n_read_status (notifications (fst (snd (markAsRead ?db (Some 7) [?n1] 1))))
      = [Some True, None]"
    using own by (simp add: markAsRead_def notifications_update_read_def)
  show ?thesis using flags unchanged by (intro conjI)
qed

theorem markAsRead_silent_policy_counterexample:
  "markAsRead
     \<lparr>users = [], events = [], event_participants = [],
      notifications = [\<lparr>n_id = 1, n_user_id = 7, n_message = ''Shift moved'',
         n_type = Some Alert, n_read_status = Some False, n_created_at = 10\<rparr>]\<rparr>
     (Some 8) [] 1
   = (None,
      \<lparr>users = [], events = [], event_participants = [],
       notifications = [\<lparr>n_id = 1, n_user_id = 7, n_message = ''Shift moved'',
         n_type = Some Alert, n_read_status = Some False, n_created_at = 10\<rparr>]\<rparr>,
      [])"
  by (simp add: markAsRead_def notifications_update_read_def)

subsection \<open>The notification list\<close>

text \<open>
  Claim C10, as the code has it. The list that \<^verbatim>\<open>fetchNotifications\<close> stores holds the
  fifty newest notifications of the user, all of them when there are at most fifty, newest
  first; the ones left out are not newer than any one kept. The unread count is the number
  of the notifications of the list held that are not marked as read: after a fetch, the
  number of the user's unread notifications less the unread ones left out, and there is a
  store where it is smaller than the number of the user's unread notifications. A
  notification delivered by the subscription is put in front of the list held, which is
  not cut: the list is longer by one, and it can hold more than fifty notifications.
\<close>

theorem notifications_fetched_then_pushed:
  "length (fetchNotifications db (Some u) prev)
     = min 50 (length (filter (\<lambda>n. n_user_id n = u) (notifications db)))
   \<and> sorted (map (\<lambda>n. - n_created_at n) (fetchNotifications db (Some u) prev))
   \<and> (\<exists>older.
         mset (fetchNotifications db (Some u) prev) + mset older
           = mset (filter (\<lambda>n. n_user_id n = u) (notifications db))
         \<and> (\<forall>n\<in>set (fetchNotifications db (Some u) prev). \<forall>m\<in>set older.
               n_created_at m \<le> n_created_at n)
         \<and> unreadCount (fetchNotifications db (Some u) prev) + unreadCount older
           = length (filter (\<lambda>n. n_user_id n = u \<and> n_read_status n \<noteq> Some True)
                       (notifications db)))
   \<and> unreadCount ns + length (filter (\<lambda>n. n_read_status n = Some True) ns) = length ns
   \<and> (\<exists>db' u'. unreadCount (fetchNotifications db' (Some u') [])
         < length (filter (\<lambda>n. n_user_id n = u' \<and> n_read_status n \<noteq> Some True)
                     (notifications db')))
   \<and> hd (subscribeToNotifications newNotification ns) = newNotification
   \<and> tl (subscribeToNotifications newNotification ns) = ns
   \<and> unreadCount (subscribeToNotifications newNotification ns)
       = unreadCount ns + (if n_read_status newNotification = Some True then 0 else 1)
   \<and> length (subscribeToNotifications newNotification (fetchNotifications db (Some u) prev))
       = min 50 (length (filter (\<lambda>n. n_user_id n = u) (notifications db))) + 1"
proof -
  let ?mine = "filter (\<lambda>n. n_user_id n = u) (notifications db)"
  let ?f = "fetchNotifications db (Some u) prev"
  let ?unread = "\<lambda>n. n_read_status n \<noteq> Some True"
  have f: "?f = take 50 (sort_key (\<lambda>n. - n_created_at n) ?mine)"
    by (simp add: fetchNotifications_def notifications_select_def conj_commute eq_commute)
  have len: "length ?f = min 50 (length ?mine)" by (simp add: f min.commute)
  have srt: "sorted (map (\<lambda>n. - n_created_at n) ?f)"
    unfolding f by (simp flip: take_map)
  obtain older where older: "mset ?f + mset older = mset ?mine"
      "\<forall>x\<in>set ?f. \<forall>y\<in>set older. - n_created_at x \<le> - n_created_at y"
    unfolding f using take_sort_key_split [of 50 "\<lambda>n. - n_created_at n" ?mine] by blast
  from older(2) have ord: "\<forall>n\<in>set ?f. \<forall>m\<in>set older. n_created_at m \<le> n_created_at n"
    by simp
  have "mset (filter ?unread (?f @ older)) = mset (filter ?unread ?mine)"
    using older(1) by (simp only: mset_filter mset_append)
  then have "length (filter ?unread (?f @ older)) = length (filter ?unread ?mine)"
    by (rule mset_eq_length)
  then have cnt: "unreadCount ?f + unreadCount older
      = length (filter (\<lambda>n. n_user_id n = u \<and> n_read_status n \<noteq> Some True)
                  (notifications db))"
    by (simp add: unreadCount_def conj_commute)
  have ex: "\<exists>older. mset ?f + mset older = mset ?mine
         \<and> (\<forall>n\<in>set ?f. \<forall>m\<in>set older. n_created_at m \<le> n_created_at n)
         \<and> unreadCount ?f + unreadCount older
           = length (filter (\<lambda>n. n_user_id n = u \<and> n_read_status n \<noteq> Some True)
                       (notifications db))"
    using older(1) ord cnt by blast
  have pin: "unreadCount ns + length (filter (\<lambda>n. n_read_status n = Some True) ns) = length ns"
    using sum_length_filter_compl [of "\<lambda>n. n_read_status n = Some True" ns]
    by (simp add: unreadCount_def)
  let ?db = "\<lparr>users = [\<lparr>u_id = 7, u_email = ''amal@srcs.org'', u_name = Some ''Amal'', u_role = Volunteer\<rparr>],
       events = [], event_participants = [],
       notifications = map (\<lambda>i. \<lparr>n_id = i, n_user_id = 7, n_message = ''Welcome'',
          n_type = Some General, n_read_status = Some False, n_created_at = int i\<rparr>)
          [0..<51]\<rparr>"
  have "unreadCount (fetchNotifications ?db (Some 7) []) \<le> length (fetchNotifications ?db (Some 7) [])"
    by (simp add: unreadCount_def)
  also have "\<dots> \<le> 50" by (simp add: fetchNotifications_def)
  also have "\<dots> < length (filter (\<lambda>n. n_user_id n = 7 \<and> n_read_status n \<noteq> Some True)
                     (notifications ?db))"
    by (simp add: filter_map o_def)
  finally have smaller: "\<exists>db' u'. unreadCount (fetchNotifications db' (Some u') [])
         < length (filter (\<lambda>n. n_user_id n = u' \<and> n_read_status n \<noteq> Some True)
                     (notifications db'))"
    by blast
  have h: "hd (subscribeToNotifications newNotification ns) = newNotification"
    by (simp add: subscribeToNotifications_def)
  have t: "tl (subscribeToNotifications newNotification ns) = ns"
    by (simp add: subscribeToNotifications_def)
  have pushed: "unreadCount (subscribeToNotifications newNotification ns)
       = unreadCount ns + (if n_read_status newNotification = Some True then 0 else 1)"
    by (simp add: subscribeToNotifications_def unreadCount_def)
  have longer: "length (subscribeToNotifications newNotification ?f) = min 50 (length ?mine) + 1"
    by (simp add: subscribeToNotifications_def len)
  show ?thesis using len srt ex pin smaller h t pushed longer by (intro conjI)
qed

theorem notifications_fetched_then_pushed_witness:
  "length (fetchNotifications
      \<lparr>users = [\<lparr>u_id = 7, u_email = ''amal@srcs.org'', u_name = Some ''Amal'', u_role = Volunteer\<rparr>],
       events = [], event_participants = [],
       notifications = map (\<lambda>i. \<lparr>n_id = i, n_user_id = 7, n_message = ''Welcome'',
          n_type = Some General, n_read_status = Some False, n_created_at = int i\<rparr>)
          [0..<51]\<rparr> (Some 7) []) = 50
   \<and> unreadCount (fetchNotifications
      \<lparr>users = [\<lparr>u_id = 7, u_email = ''amal@srcs.org'', u_name = Some ''Amal'', u_role = Volunteer\<rparr>],
       events = [], event_participants = [],
       notifications = map (\<lambda>i. \<lparr>n_id = i, n_user_id = 7, n_message = ''Welcome'',
          n_type = Some General, n_read_status = Some False, n_created_at = int i\<rparr>)
          [0..<51]\<rparr> (Some 7) []) = 50
   \<and> length (filter (\<lambda>n. n_user_id n = 7 \<and> n_read_status n \<noteq> Some True)
       (map (\<lambda>i. \<lparr>n_id = i, n_user_id = 7, n_message = ''Welcome'',
          n_type = Some General, n_read_status = Some False, n_created_at = int i\<rparr>)
          [0..<51])) = 51
   \<and> length (subscribeToNotifications
      \<lparr>n_id = 99, n_user_id = 7, n_message = ''New event'',
          n_type = Some Event, n_read_status = Some False, n_created_at = 99\<rparr>
      (fetchNotifications
      \<lparr>users = [\<lparr>u_id = 7, u_email = ''amal@srcs.org'', u_name = Some ''Amal'', u_role = Volunteer\<rparr>],
       events = [], event_participants = [],
       notifications = map (\<lambda>i. \<lparr>n_id = i, n_user_id = 7, n_message = ''Welcome'',
          n_type = Some General, n_read_status = Some False, n_created_at = int i\<rparr>)
          [0..<51]\<rparr> (Some 7) [])) = 51"
proof -
  let ?db = "\<lparr>users = [\<lparr>u_id = 7, u_email = ''amal@srcs.org'', u_name = Some ''Amal'', u_role = Volunteer\<rparr>],
       events = [], event_participants = [],
       notifications = map (\<lambda>i. \<lparr>n_id = i, n_user_id = 7, n_message = ''Welcome'',
          n_type = Some General, n_read_status = Some False, n_created_at = int i\<rparr>)
          [0..<51]\<rparr>"
  let ?new = "\<lparr>n_id = 99, n_user_id = 7, n_message = ''New event'',
          n_type = Some Event, n_read_status = Some False, n_created_at = 99\<rparr>"
  let ?f = "fetchNotifications ?db (Some 7) []"
  have mine: "length (filter (\<lambda>n. n_user_id n = 7) (notifications ?db)) = 51"
    by (simp add: filter_map o_def)
  note inst = notifications_fetched_then_pushed [of ?db 7 "[]" ?f ?new]
  from inst have "length ?f = min 50 (length (filter (\<lambda>n. n_user_id n = 7) (notifications ?db)))"
    by (rule conjunct1)
  then have a: "length ?f = 50" by (simp only: mine; simp)
  have "set ?f \<subseteq> set (notifications ?db)"
    by (auto simp: fetchNotifications_def notifications_select_def dest: in_set_takeD)
  then have "\<forall>n\<in>set ?f. n_read_status n = Some False" by auto
  then have none_read: "filter (\<lambda>n. n_read_status n = Some True) ?f = []"
    by (simp add: filter_empty_conv)
  from inst have "unreadCount ?f + length (filter (\<lambda>n. n_read_status n = Some True) ?f) = length ?f"
    by blast
  then have b: "unreadCount ?f = 50" by (simp only: none_read a; simp)
  have c: "length (filter (\<lambda>n. n_user_id n = 7 \<and> n_read_status n \<noteq> Some True)
       (map (\<lambda>i. \<lparr>n_id = i, n_user_id = 7, n_message = ''Welcome'',
          n_type = Some General, n_read_status = Some False, n_created_at = int i\<rparr>)
          [0..<51])) = 51"
    by (simp add: filter_map o_def)
  from inst have "length (subscribeToNotifications ?new ?f)
      = min 50 (length (filter (\<lambda>n. n_user_id n = 7) (notifications ?db))) + 1"
    by blast
  then have d: "length (subscribeToNotifications ?new ?f) = 51" by (simp only: mine; simp)
  show ?thesis using a b c d by (intro conjI)
qed

theorem notifications_fetched_then_pushed_counterexample:
  "length (fetchNotifications
      \<lparr>users = [\<lparr>u_id = 7, u_email = ''amal@srcs.org'', u_name = Some ''Amal'', u_role = Volunteer\<rparr>],
       events = [], event_participants = [],
       notifications = map (\<lambda>i. \<lparr>n_id = i, n_user_id = 7, n_message = ''Welcome'',
          n_type = Some General, n_read_status = Some False, n_created_at = int i\<rparr>)
          [0..<50]\<rparr> (Some 7) []) = 50
   \<and> length (subscribeToNotifications
      \<lparr>n_id = 99, n_user_id = 7, n_message = ''New event'',
          n_type = Some Event, n_read_status = Some False, n_created_at = 99\<rparr>
      (fetchNotifications
      \<lparr>users = [\<lparr>u_id = 7, u_email = ''amal@srcs.org'', u_name = Some ''Amal'', u_role = Volunteer\<rparr>],
       events = [], event_participants = [],
       notifications = map (\<lambda>i. \<lparr>n_id = i, n_user_id = 7, n_message = ''Welcome'',
          n_type = Some General, n_read_status = Some False, n_created_at = int i\<rparr>)
          [0..<50]\<rparr> (Some 7) [])) = 51
   \<and> unreadCount (subscribeToNotifications
      \<lparr>n_id = 99, n_user_id = 7, n_message = ''New event'',
          n_type = Some Event, n_read_status = Some False, n_created_at = 99\<rparr>
      (fetchNotifications
      \<lparr>users = [\<lparr>u_id = 7, u_email = ''amal@srcs.org'', u_name = Some ''Amal'', u_role = Volunteer\<rparr>],
       events = [], event_participants = [],
       notifications = map (\<lambda>i. \<lparr>n_id = i, n_user_id = 7, n_message = ''Welcome'',
          n_type = Some General, n_read_status = Some False, n_created_at = int i\<rparr>)
          [0..<50]\<rparr> (Some 7) []))
     = 1 + unreadCount (fetchNotifications
      \<lparr>users = [\<lparr>u_id = 7, u_email = ''amal@srcs.org'', u_name = Some ''Amal'', u_role = Volunteer\<rparr>],
       events = [], event_participants = [],
       notifications = map (\<lambda>i. \<lparr>n_id = i, n_user_id = 7, n_message = ''Welcome'',
          n_type = Some General, n_read_status = Some False, n_created_at = int i\<rparr>)
          [0..<50]\<rparr> (Some 7) [])"
  by (simp add: subscribeToNotifications_def unreadCount_def fetchNotifications_def
        notifications_select_def filter_map o_def)

end
